theory Spec2Isabelle
  imports Main "HOL-Library.AList"
begin

section \<open>The caches of suds/cache.py\<close>

text \<open>
  The module is Python 2 code (\<^verbatim>\<open>duration.items()[0]\<close>, \<^verbatim>\<open>cPickle\<close>): \<^verbatim>\<open>str\<close> is a byte
  string, so file contents, ids and the version string are all \<open>string\<close>.
  Every method is a function from the world (the cache folder, the clock and the number
  of open file objects) to the new world and either the exception that left the method
  (\<open>Inl\<close>) or its return value (\<open>Inr\<close>). A method that returns Python's \<^verbatim>\<open>None\<close> where
  another path returns a value has an \<open>option\<close> as its value.
\<close>

subsection \<open>Exceptions\<close>

type_synonym bytes = string

datatype error =
    IOError
  | OSError
  | TypeError
  | AttributeError
  | OverflowError
  | PicklingError
  | UnpicklingError
  | ParseError
  | Exception string

subsection \<open>The cache folder\<close>

text \<open>
  The world holds the one folder \<^verbatim>\<open>self.location\<close>. A path \<^verbatim>\<open>os.path.join(self.location,
  name)\<close> is represented by \<open>name\<close>; names are taken as single path components (the source
  does not sanitise ids, and an id with a path separator addresses another folder, which
  is not part of this world). A node carries the time \<^verbatim>\<open>os.path.getctime\<close> reports, as
  the \<^verbatim>\<open>datetime\<close> that \<^verbatim>\<open>fromtimestamp\<close> makes of it: in microseconds (the resolution of
  \<^verbatim>\<open>datetime\<close>) since \<^verbatim>\<open>datetime.min\<close>, the start of year 1. The clock is \<^verbatim>\<open>datetime.now()\<close> in
  the same measure. \<open>Missing ok\<close> is a location that is not a directory; \<open>ok\<close> tells whether
  \<^verbatim>\<open>os.makedirs\<close> can create it.
\<close>

datatype node = File bytes int | Dir int

datatype location = Missing bool | Directory "(string \<times> node) list"

record world =
  root :: location
  clock :: int
  nopen :: nat

datatype mode = Rd | Wr

datatype fileobj = Reader bytes | Writer string

definition lookup :: "world \<Rightarrow> string \<Rightarrow> node option" where
  "lookup w name = (case root w of Missing ok \<Rightarrow> None | Directory al \<Rightarrow> map_of al name)"

fun is_file :: "node option \<Rightarrow> bool" where
  "is_file (Some (File d c)) = True"
| "is_file x = False"

fun is_dir :: "node option \<Rightarrow> bool" where
  "is_dir (Some (Dir c)) = True"
| "is_dir x = False"

definition os_path_isdir_location :: "world \<Rightarrow> bool" where
  "os_path_isdir_location w = (case root w of Missing ok \<Rightarrow> False | Directory al \<Rightarrow> True)"

definition os_makedirs :: "world \<Rightarrow> world \<times> (error + unit)" where
  "os_makedirs w =
     (case root w of
        Missing ok \<Rightarrow> (if ok then (w\<lparr>root := Directory []\<rparr>, Inr ()) else (w, Inl OSError))
      | Directory al \<Rightarrow> (w, Inl OSError))"

definition os_listdir :: "world \<Rightarrow> error + string list" where
  "os_listdir w =
     (case root w of Missing ok \<Rightarrow> Inl OSError | Directory al \<Rightarrow> Inr (remdups (map fst al)))"

definition os_path_isdir :: "string \<Rightarrow> world \<Rightarrow> bool" where
  "os_path_isdir name w = is_dir (lookup w name)"

definition os_remove :: "string \<Rightarrow> world \<Rightarrow> world \<times> (error + unit)" where
  "os_remove name w =
     (case root w of
        Missing ok \<Rightarrow> (w, Inl OSError)
      | Directory al \<Rightarrow>
          (if is_file (map_of al name)
           then (w\<lparr>root := Directory (AList.delete name al)\<rparr>, Inr ())
           else (w, Inl OSError)))"

definition os_path_getctime :: "string \<Rightarrow> world \<Rightarrow> error + int" where
  "os_path_getctime name w =
     (case lookup w name of
        None \<Rightarrow> Inl OSError
      | Some (File d c) \<Rightarrow> Inr c
      | Some (Dir c) \<Rightarrow> Inr c)"

text \<open>
  The builtin \<^verbatim>\<open>open\<close>: reading needs a regular file; writing creates or truncates the
  file (its change time becomes the current time) and fails on a directory or under a
  location that is not a directory. An open file object counts in \<open>nopen\<close> until closed.
\<close>

definition py_open :: "string \<Rightarrow> mode \<Rightarrow> world \<Rightarrow> world \<times> (error + fileobj)" where
  "py_open name m w =
     (case root w of
        Missing ok \<Rightarrow> (w, Inl IOError)
      | Directory al \<Rightarrow>
          (case m of
             Rd \<Rightarrow>
               (case map_of al name of
                  Some (File d c) \<Rightarrow> (w\<lparr>nopen := nopen w + 1\<rparr>, Inr (Reader d))
                | Some (Dir c) \<Rightarrow> (w, Inl IOError)
                | None \<Rightarrow> (w, Inl IOError))
           | Wr \<Rightarrow>
               (if is_dir (map_of al name) then (w, Inl IOError)
                else (w\<lparr>root := Directory (AList.update name (File [] (clock w)) al),
                        nopen := nopen w + 1\<rparr>, Inr (Writer name)))))"

fun file_read :: "fileobj \<Rightarrow> error + bytes" where
  "file_read (Reader d) = Inr d"
| "file_read (Writer name) = Inl IOError"

fun file_write :: "fileobj \<Rightarrow> bytes \<Rightarrow> world \<Rightarrow> world \<times> (error + unit)" where
  "file_write (Reader d) data w = (w, Inl IOError)"
| "file_write (Writer name) data w =
     (case root w of
        Missing ok \<Rightarrow> (w, Inr ())
      | Directory al \<Rightarrow>
          (w\<lparr>root := Directory (AList.update name (File data (clock w)) al)\<rparr>, Inr ()))"

definition file_close :: "world \<Rightarrow> world" where
  "file_close w = w\<lparr>nopen := nopen w - 1\<rparr>"

text \<open>
  \<^verbatim>\<open>datetime.timedelta(**{unit: value})\<close>, in microseconds. The constructor takes the
  keywords days, seconds, microseconds, milliseconds, minutes, hours and weeks; any other
  keyword, \<^verbatim>\<open>months\<close> among them, is a \<^verbatim>\<open>TypeError\<close>. A delta whose normalised number of
  days (the total floor-divided by one day) has a magnitude above 999999999 is an
  \<^verbatim>\<open>OverflowError\<close>.
\<close>

definition timedelta_normalise :: "int \<Rightarrow> error + int" where
  "timedelta_normalise us =
     (if \<bar>us div 86400000000\<bar> > 999999999 then Inl OverflowError else Inr us)"

definition timedelta :: "string option \<Rightarrow> int \<Rightarrow> error + int" where
  "timedelta unit v =
     (if unit = Some ''weeks'' then timedelta_normalise (v * 604800000000)
      else if unit = Some ''days'' then timedelta_normalise (v * 86400000000)
      else if unit = Some ''hours'' then timedelta_normalise (v * 3600000000)
      else if unit = Some ''minutes'' then timedelta_normalise (v * 60000000)
      else if unit = Some ''seconds'' then timedelta_normalise (v * 1000000)
      else if unit = Some ''milliseconds'' then timedelta_normalise (v * 1000)
      else if unit = Some ''microseconds'' then timedelta_normalise v
      else Inl TypeError)"

text \<open>
  \<^verbatim>\<open>datetime + timedelta\<close>. \<^verbatim>\<open>datetime.max\<close> is the last microsecond of year 9999, day
  3652059 of the calendar; a sum outside \<^verbatim>\<open>datetime.min .. datetime.max\<close> is an
  \<^verbatim>\<open>OverflowError\<close> (date value out of range).
\<close>

definition datetime_max :: int where
  "datetime_max = 3652059 * 86400000000 - 1"

definition is_datetime :: "int \<Rightarrow> bool" where
  "is_datetime t = (0 \<le> t \<and> t \<le> datetime_max)"

definition datetime_add :: "int \<Rightarrow> int \<Rightarrow> error + int" where
  "datetime_add t d = (if is_datetime (t + d) then Inr (t + d) else Inl OverflowError)"

definition startswith :: "string \<Rightarrow> string \<Rightarrow> bool" where
  "startswith s p = (take (length p) s = p)"

subsection \<open>Cache and NoCache\<close>

definition not_implemented :: error where
  "not_implemented = Exception ''not-implemented''"

definition Cache_get :: "string \<Rightarrow> error + 'v option" where
  "Cache_get i = Inl not_implemented"

definition Cache_put :: "string \<Rightarrow> 'v \<Rightarrow> error + 'v option" where
  "Cache_put i object = Inl not_implemented"

definition Cache_purge :: "string \<Rightarrow> error + unit" where
  "Cache_purge i = Inl not_implemented"

definition Cache_clear :: "error + unit" where
  "Cache_clear = Inl not_implemented"

text \<open>
  \<^verbatim>\<open>NoCache\<close> overrides \<^verbatim>\<open>get\<close> (a bare \<^verbatim>\<open>return\<close>) and \<^verbatim>\<open>put\<close> (\<^verbatim>\<open>pass\<close>): both return
  \<^verbatim>\<open>None\<close>. It inherits \<^verbatim>\<open>purge\<close> and \<^verbatim>\<open>clear\<close> from \<^verbatim>\<open>Cache\<close>.
\<close>

definition NoCache_get :: "string \<Rightarrow> error + 'v option" where
  "NoCache_get i = Inr None"

definition NoCache_put :: "string \<Rightarrow> 'v \<Rightarrow> error + 'v option" where
  "NoCache_put i object = Inr None"

definition NoCache_purge :: "string \<Rightarrow> error + unit" where
  "NoCache_purge i = Cache_purge i"

definition NoCache_clear :: "error + unit" where
  "NoCache_clear = Cache_clear"

subsection \<open>FileCache\<close>

text \<open>
  \<open>kind\<close> is the class of the instance: it selects the override of \<^verbatim>\<open>fnsuffix\<close>.
  \<open>duration\<close> is the pair \<^verbatim>\<open>self.duration\<close>, \<^verbatim>\<open>(None, 0)\<close> at first.
\<close>

datatype kind = KFileCache | KDocumentCache | KObjectCache

record cache =
  kind :: kind
  duration :: "string option \<times> int"

definition fnprefix :: string where
  "fnprefix = ''suds''"

definition units :: "string list" where
  "units = [''months'', ''weeks'', ''days'', ''hours'', ''minutes'', ''seconds'']"

fun fnsuffix :: "kind \<Rightarrow> string" where
  "fnsuffix KFileCache = ''gcf''"
| "fnsuffix KDocumentCache = ''xml''"
| "fnsuffix KObjectCache = ''px''"

definition filename :: "cache \<Rightarrow> string \<Rightarrow> string" where
  "filename self i = fnprefix @ ''-'' @ i @ ''.'' @ fnsuffix (kind self)"

definition mktmp :: "world \<Rightarrow> world" where
  "mktmp w = (if \<not> os_path_isdir_location w then fst (os_makedirs w) else w)"

definition FileCache_open :: "string \<Rightarrow> mode \<Rightarrow> world \<Rightarrow> world \<times> (error + fileobj)" where
  "FileCache_open name m w = py_open name m (mktmp w)"

fun clear_loop :: "string list \<Rightarrow> world \<Rightarrow> world \<times> (error + unit)" where
  "clear_loop [] w = (w, Inr ())"
| "clear_loop (name # rest) w =
     (if os_path_isdir name w then clear_loop rest w
      else if startswith name fnprefix then
        (case os_remove name w of
           (w', Inl e) \<Rightarrow> (w', Inl e)
         | (w', Inr u) \<Rightarrow> clear_loop rest w')
      else clear_loop rest w)"

definition FileCache_clear :: "world \<Rightarrow> world \<times> (error + unit)" where
  "FileCache_clear w = (case os_listdir w of Inl e \<Rightarrow> (w, Inl e) | Inr names \<Rightarrow> clear_loop names w)"

text \<open>
  \<open>expiry self created\<close> is \<^verbatim>\<open>created + datetime.timedelta(**d)\<close> with
  \<^verbatim>\<open>d = {self.duration[0]: self.duration[1]}\<close>: the delta is built first, then added.
\<close>

definition expiry :: "cache \<Rightarrow> int \<Rightarrow> error + int" where
  "expiry self created =
     (case timedelta (fst (duration self)) (snd (duration self)) of
        Inl e \<Rightarrow> Inl e
      | Inr d \<Rightarrow> datetime_add created d)"

definition remove_if_expired :: "cache \<Rightarrow> string \<Rightarrow> world \<Rightarrow> world \<times> (error + unit)" where
  "remove_if_expired self name w =
     (if snd (duration self) < 1 then (w, Inr ())
      else
        (case os_path_getctime name w of
           Inl e \<Rightarrow> (w, Inl e)
         | Inr created \<Rightarrow>
             (case expiry self created of
                Inl e \<Rightarrow> (w, Inl e)
              | Inr expired \<Rightarrow>
                  (if expired < clock w then os_remove name w else (w, Inr ())))))"

text \<open>The body of the \<^verbatim>\<open>try\<close> of \<^verbatim>\<open>_getf\<close>, and \<^verbatim>\<open>_getf\<close> with its \<^verbatim>\<open>except Exception: pass\<close>.\<close>

definition getf_try :: "cache \<Rightarrow> string \<Rightarrow> world \<Rightarrow> world \<times> (error + fileobj)" where
  "getf_try self i w =
     (let name = filename self i in
      case remove_if_expired self name w of
        (w', Inl e) \<Rightarrow> (w', Inl e)
      | (w', Inr u) \<Rightarrow> FileCache_open name Rd w')"

definition getf :: "cache \<Rightarrow> string \<Rightarrow> world \<Rightarrow> world \<times> (error + fileobj option)" where
  "getf self i w =
     (case getf_try self i w of
        (w', Inl e) \<Rightarrow> (w', Inr None)
      | (w', Inr f) \<Rightarrow> (w', Inr (Some f)))"

text \<open>
  \<^verbatim>\<open>FileCache.get\<close>: \<^verbatim>\<open>f.read()\<close> on the \<^verbatim>\<open>None\<close> that \<^verbatim>\<open>_getf\<close> returns is an
  \<^verbatim>\<open>AttributeError\<close>; the inner \<^verbatim>\<open>finally\<close> closes \<open>f\<close>; the outer \<^verbatim>\<open>except Exception: pass\<close>
  makes the method return \<^verbatim>\<open>None\<close>.
\<close>

definition FileCache_get_try :: "cache \<Rightarrow> string \<Rightarrow> world \<Rightarrow> world \<times> (error + bytes)" where
  "FileCache_get_try self i w =
     (case getf self i w of
        (w', Inl e) \<Rightarrow> (w', Inl e)
      | (w', Inr None) \<Rightarrow> (w', Inl AttributeError)
      | (w', Inr (Some f)) \<Rightarrow> (file_close w', file_read f))"

definition FileCache_get :: "cache \<Rightarrow> string \<Rightarrow> world \<Rightarrow> world \<times> (error + bytes option)" where
  "FileCache_get self i w =
     (case FileCache_get_try self i w of
        (w', Inl e) \<Rightarrow> (w', Inr None)
      | (w', Inr d) \<Rightarrow> (w', Inr (Some d)))"

definition FileCache_purge :: "cache \<Rightarrow> string \<Rightarrow> world \<Rightarrow> world \<times> (error + unit)" where
  "FileCache_purge self i w =
     (case os_remove (filename self i) w of
        (w', Inl e) \<Rightarrow> (w', Inr ())
      | (w', Inr u) \<Rightarrow> (w', Inr ()))"

definition FileCache_put_try :: "cache \<Rightarrow> string \<Rightarrow> bytes \<Rightarrow> world \<Rightarrow> world \<times> (error + bytes)" where
  "FileCache_put_try self i data w =
     (case FileCache_open (filename self i) Wr w of
        (w', Inl e) \<Rightarrow> (w', Inl e)
      | (w', Inr f) \<Rightarrow>
          (case file_write f data w' of
             (w'', Inl e) \<Rightarrow> (file_close w'', Inl e)
           | (w'', Inr u) \<Rightarrow> (file_close w'', Inr data)))"

definition FileCache_put :: "cache \<Rightarrow> string \<Rightarrow> bytes \<Rightarrow> world \<Rightarrow> world \<times> (error + bytes)" where
  "FileCache_put self i data w =
     (case FileCache_put_try self i data w of
        (w', Inl e) \<Rightarrow> (w', Inr data)
      | (w', Inr d) \<Rightarrow> (w', Inr d))"

text \<open>
  \<^verbatim>\<open>__check_version\<close>; \<open>version\<close> is \<^verbatim>\<open>suds.__version__\<close>, which is defined outside this
  module. The handler runs on any exception of the \<^verbatim>\<open>try\<close>, the \<^verbatim>\<open>raise Exception()\<close> on a
  differing version included; an exception inside the handler leaves the method.
\<close>

definition check_version_try :: "bytes \<Rightarrow> world \<Rightarrow> world \<times> (error + unit)" where
  "check_version_try version w =
     (case FileCache_open ''version'' Rd w of
        (w', Inl e) \<Rightarrow> (w', Inl e)
      | (w', Inr f) \<Rightarrow>
          (case file_read f of
             Inl e \<Rightarrow> (file_close w', Inl e)
           | Inr v \<Rightarrow>
               (if v \<noteq> version then (file_close w', Inl (Exception []))
                else (file_close w', Inr ()))))"

definition check_version :: "bytes \<Rightarrow> world \<Rightarrow> world \<times> (error + unit)" where
  "check_version version w =
     (case check_version_try version w of
        (w1, Inr u) \<Rightarrow> (w1, Inr ())
      | (w1, Inl e) \<Rightarrow>
          (case FileCache_clear w1 of
             (w2, Inl e) \<Rightarrow> (w2, Inl e)
           | (w2, Inr u) \<Rightarrow>
               (case FileCache_open ''version'' Wr w2 of
                  (w3, Inl e) \<Rightarrow> (w3, Inl e)
                | (w3, Inr f) \<Rightarrow>
                    (case file_write f version w3 of
                       (w4, r) \<Rightarrow> (file_close w4, r)))))"

text \<open>
  \<^verbatim>\<open>__set_duration(**duration)\<close>: the keyword arguments are the items of a dict, in its
  order. Only a dict of exactly one item is looked at.
\<close>

definition str_units :: string where
  "str_units = ''('' @ concat (map (\<lambda>u. [CHR 0x27] @ u @ [CHR 0x27] @ '', '') (butlast units))
     @ [CHR 0x27] @ last units @ [CHR 0x27] @ '')''"

definition set_duration :: "cache \<Rightarrow> (string \<times> int) list \<Rightarrow> error + cache" where
  "set_duration self kwargs =
     (if length kwargs = 1 then
        (case kwargs of
           arg # rest \<Rightarrow>
             (if \<not> (fst arg \<in> set units) then Inl (Exception (''must be: '' @ str_units))
              else Inr (self\<lparr>duration := (Some (fst arg), snd arg)\<rparr>))
         | [] \<Rightarrow> Inr self)
      else Inr self)"

text \<open>
  \<^verbatim>\<open>__init__\<close>, shared by the three classes; the location is the folder of the world.
\<close>

definition FileCache_init :: "kind \<Rightarrow> (string \<times> int) list \<Rightarrow> bytes \<Rightarrow> world \<Rightarrow> world \<times> (error + cache)" where
  "FileCache_init k kwargs version w =
     (case set_duration \<lparr>kind = k, duration = (None, 0)\<rparr> kwargs of
        Inl e \<Rightarrow> (w, Inl e)
      | Inr self \<Rightarrow>
          (case check_version version w of
             (w', Inl e) \<Rightarrow> (w', Inl e)
           | (w', Inr u) \<Rightarrow> (w', Inr self)))"

subsection \<open>DocumentCache and ObjectCache\<close>

text \<open>
  The parser, the rendering of an element (\<^verbatim>\<open>suds.byte_str(str(object))\<close>) and \<^verbatim>\<open>pickle\<close>
  live outside this module: they are parameters, each free to raise. The argument of
  \<^verbatim>\<open>DocumentCache.put\<close> is an \<^verbatim>\<open>Element\<close> or any other object. Neither \<^verbatim>\<open>get\<close> closes \<open>fp\<close>
  on the path that returns the decoded value; both close it in the handler. The decoders
  read the stream and leave it open, as \<^verbatim>\<open>pickle.load\<close> does; for the parser this is what
  the handler's own \<^verbatim>\<open>fp.close()\<close> presumes.
\<close>

datatype ('e, 'o) pyobject = Element 'e | Other 'o

definition DocumentCache_get ::
  "(bytes \<Rightarrow> error + 'd) \<Rightarrow> cache \<Rightarrow> string \<Rightarrow> world \<Rightarrow> world \<times> (error + 'd option)" where
  "DocumentCache_get parse self i w =
     (case getf self i w of
        (w', Inl e) \<Rightarrow>
          (case FileCache_purge self i w' of
             (w'', Inl e') \<Rightarrow> (w'', Inl e')
           | (w'', Inr u) \<Rightarrow> (w'', Inr None))
      | (w', Inr None) \<Rightarrow> (w', Inr None)
      | (w', Inr (Some fp)) \<Rightarrow>
          (case (case file_read fp of Inl e \<Rightarrow> Inl e | Inr d \<Rightarrow> parse d) of
             Inr doc \<Rightarrow> (w', Inr (Some doc))
           | Inl e \<Rightarrow>
               (case FileCache_purge self i (file_close w') of
                  (w'', Inl e') \<Rightarrow> (w'', Inl e')
                | (w'', Inr u) \<Rightarrow> (w'', Inr None))))"

definition DocumentCache_put ::
  "('e \<Rightarrow> error + bytes) \<Rightarrow> cache \<Rightarrow> string \<Rightarrow> ('e, 'o) pyobject \<Rightarrow> world
     \<Rightarrow> world \<times> (error + ('e, 'o) pyobject)" where
  "DocumentCache_put render self i object w =
     (case object of
        Element el \<Rightarrow>
          (case render el of
             Inl e \<Rightarrow> (w, Inl e)
           | Inr data \<Rightarrow>
               (case FileCache_put self i data w of
                  (w', Inl e) \<Rightarrow> (w', Inl e)
                | (w', Inr d) \<Rightarrow> (w', Inr object)))
      | Other x \<Rightarrow> (w, Inr object))"

definition ObjectCache_get ::
  "(bytes \<Rightarrow> error + 'v) \<Rightarrow> cache \<Rightarrow> string \<Rightarrow> world \<Rightarrow> world \<times> (error + 'v option)" where
  "ObjectCache_get loads self i w =
     (case getf self i w of
        (w', Inl e) \<Rightarrow>
          (case FileCache_purge self i w' of
             (w'', Inl e') \<Rightarrow> (w'', Inl e')
           | (w'', Inr u) \<Rightarrow> (w'', Inr None))
      | (w', Inr None) \<Rightarrow> (w', Inr None)
      | (w', Inr (Some fp)) \<Rightarrow>
          (case (case file_read fp of Inl e \<Rightarrow> Inl e | Inr d \<Rightarrow> loads d) of
             Inr v \<Rightarrow> (w', Inr (Some v))
           | Inl e \<Rightarrow>
               (case FileCache_purge self i (file_close w') of
                  (w'', Inl e') \<Rightarrow> (w'', Inl e')
                | (w'', Inr u) \<Rightarrow> (w'', Inr None))))"

definition ObjectCache_put ::
  "('v \<Rightarrow> error + bytes) \<Rightarrow> cache \<Rightarrow> string \<Rightarrow> 'v \<Rightarrow> world \<Rightarrow> world \<times> (error + 'v)" where
  "ObjectCache_put dumps self i object w =
     (case dumps object of
        Inl e \<Rightarrow> (w, Inl e)
      | Inr data \<Rightarrow>
          (case FileCache_put self i data w of
             (w', Inl e) \<Rightarrow> (w', Inl e)
           | (w', Inr d) \<Rightarrow> (w', Inr object)))"

subsection \<open>Conditions used in the statements\<close>


definition fresh :: "cache \<Rightarrow> int \<Rightarrow> int \<Rightarrow> bool" where
  "fresh self created now =
     (if snd (duration self) < 1 then True
      else (case expiry self created of
              Inl e \<Rightarrow> False
            | Inr expired \<Rightarrow> \<not> (expired < now)))"

text \<open>
  \<open>expiry_check_runs self created\<close>: \<^verbatim>\<open>__remove_if_expired\<close> does not raise on an existing
  file of change time \<open>created\<close>, that is, the duration's value is below 1, or \<^verbatim>\<open>timedelta\<close>
  accepts the unit and the value and the sum with \<open>created\<close> is a \<^verbatim>\<open>datetime\<close>.
\<close>

definition expiry_check_runs :: "cache \<Rightarrow> int \<Rightarrow> bool" where
  "expiry_check_runs self created =
     (if snd (duration self) < 1 then True
      else (case expiry self created of
              Inl e \<Rightarrow> False
            | Inr expired \<Rightarrow> True))"

text \<open>
  \<open>version_marker w\<close>: the content of the marker file \<^verbatim>\<open>version\<close>, if it is a regular file.
\<close>

definition version_marker :: "world \<Rightarrow> bytes option" where
  "version_marker w = (case lookup w ''version'' of Some (File v c) \<Rightarrow> Some v | Some (Dir c) \<Rightarrow> None | None \<Rightarrow> None)"

subsection \<open>Example worlds\<close>

definition folder_empty :: world where
  "folder_empty = \<lparr>root = Directory [], clock = 0, nopen = 0\<rparr>"

definition folder_mixed :: world where
  "folder_mixed =
     \<lparr>root = Directory [(''suds-a.gcf'', File ''x'' 0), (''suds-dir'', Dir 0),
        (''other.txt'', File ''y'' 0), (''version'', File ''0.6'' 0)], clock = 5, nopen = 0\<rparr>"

definition folder_marker_dir :: world where
  "folder_marker_dir =
     \<lparr>root = Directory [(''version'', Dir 0), (''suds-a.gcf'', File ''x'' 0)], clock = 5, nopen = 0\<rparr>"

definition folder_stale :: world where
  "folder_stale =
     \<lparr>root = Directory [(''version'', File ''0.5'' 0), (''suds-a.gcf'', File ''x'' 0)], clock = 5, nopen = 0\<rparr>"

definition seconds_1 :: "kind \<Rightarrow> cache" where
  "seconds_1 k = \<lparr>kind = k, duration = (Some ''seconds'', 1)\<rparr>"

definition folder_entry :: "int \<Rightarrow> int \<Rightarrow> world" where
  "folder_entry created now =
     \<lparr>root = Directory [(''version'', File ''0.6'' 0), (''suds-a.gcf'', File ''x'' created)],
      clock = now, nopen = 0\<rparr>"


definition months_1 :: "kind \<Rightarrow> cache" where
  "months_1 k = \<lparr>kind = k, duration = (Some ''months'', 1)\<rparr>"


definition folder_uncreatable :: world where
  "folder_uncreatable = \<lparr>root = Missing False, clock = 5, nopen = 0\<rparr>"

definition folder_garbage :: world where
  "folder_garbage =
     \<lparr>root = Directory [(''version'', File ''0.6'' 0), (''suds-a.xml'', File ''garbage'' 0),
        (''suds-a.px'', File ''garbage'' 0)], clock = 5, nopen = 0\<rparr>"

definition folder_pickled :: world where
  "folder_pickled =
     \<lparr>root = Directory [(''version'', File ''0.6'' 0), (''suds-a.gcf'', File ''pickled'' 0),
        (''suds-a.px'', File ''pickled'' 0)], clock = 5, nopen = 0\<rparr>"

definition new_cache :: "kind \<Rightarrow> cache" where
  "new_cache k = \<lparr>kind = k, duration = (None, 0)\<rparr>"

section \<open>Properties\<close>

subsection \<open>Effects of the primitive steps\<close>

lemma is_file_iff: "is_file x = (\<exists>d c. x = Some (File d c))"
  by (cases x rule: is_file.cases) auto

lemma is_dir_iff: "is_dir x = (\<exists>c. x = Some (Dir c))"
  by (cases x rule: is_dir.cases) auto

lemma mktmp_Directory: "root w = Directory al \<Longrightarrow> mktmp w = w"
  by (simp add: mktmp_def os_path_isdir_location_def)

lemma mktmp_Missing:
  "root w = Missing ok \<Longrightarrow> mktmp w = (if ok then w\<lparr>root := Directory []\<rparr> else w)"
  by (simp add: mktmp_def os_path_isdir_location_def os_makedirs_def)

lemma lookup_Some_root: "lookup w name = Some nd \<Longrightarrow> \<exists>al. root w = Directory al \<and> map_of al name = Some nd"
  by (cases "root w") (simp_all add: lookup_def)


lemma getf_present:
  assumes "lookup w (filename self i) = Some (File data c)" and "fresh self c (clock w)"
  shows "getf self i w = (w\<lparr>nopen := nopen w + 1\<rparr>, Inr (Some (Reader data)))"
proof -
  from lookup_Some_root [OF assms(1)] obtain al where
    al: "root w = Directory al" "map_of al (filename self i) = Some (File data c)" by blast
  with assms show ?thesis
    by (auto simp: getf_def getf_try_def remove_if_expired_def fresh_def os_path_getctime_def
      FileCache_open_def mktmp_Directory py_open_def Let_def
      split: sum.splits if_splits)
qed

lemma getf_expired:
  assumes "lookup w (filename self i) = Some (File data c)"
    and "\<not> snd (duration self) < 1"
    and "expiry self c = Inr expired"
    and "expired < clock w"
  shows "snd (getf self i w) = Inr None
       \<and> lookup (fst (getf self i w)) (filename self i) = None
       \<and> nopen (fst (getf self i w)) = nopen w"
proof -
  from lookup_Some_root [OF assms(1)] obtain al where
    al: "root w = Directory al" "map_of al (filename self i) = Some (File data c)" by blast
  with assms show ?thesis
    by (auto simp: getf_def getf_try_def remove_if_expired_def os_path_getctime_def
      lookup_def FileCache_open_def mktmp_Directory py_open_def Let_def os_remove_def
      delete_conv' mktmp_def os_path_isdir_location_def
      split: sum.splits if_splits)
qed

lemma getf_expiry_raises:
  assumes "lookup w (filename self i) = Some (File data c)"
    and "\<not> snd (duration self) < 1"
    and "expiry self c = Inl e"
  shows "getf self i w = (w, Inr None)"
proof -
  from lookup_Some_root [OF assms(1)] obtain al where
    al: "root w = Directory al" "map_of al (filename self i) = Some (File data c)" by blast
  with assms show ?thesis
    by (simp add: getf_def getf_try_def remove_if_expired_def os_path_getctime_def lookup_def)
qed

lemma FileCache_get_expiry_raises:
  assumes "lookup w (filename self i) = Some (File data c)"
    and "\<not> snd (duration self) < 1"
    and "expiry self c = Inl e"
  shows "FileCache_get self i w = (w, Inr None)"
  using getf_expiry_raises [OF assms]
  by (simp add: FileCache_get_def FileCache_get_try_def)

lemma FileCache_get_present:
  assumes "lookup w (filename self i) = Some (File data c)" and "fresh self c (clock w)"
  shows "FileCache_get self i w = (w, Inr (Some data))"
  using getf_present [OF assms]
  by (simp add: FileCache_get_def FileCache_get_try_def file_close_def)

lemma FileCache_get_expired:
  assumes "lookup w (filename self i) = Some (File data c)"
    and "\<not> snd (duration self) < 1"
    and "expiry self c = Inr expired"
    and "expired < clock w"
  shows "snd (FileCache_get self i w) = Inr None
       \<and> lookup (fst (FileCache_get self i w)) (filename self i) = None
       \<and> nopen (fst (FileCache_get self i w)) = nopen w"
  using getf_expired [OF assms]
  by (cases "getf self i w") (auto simp add: FileCache_get_def FileCache_get_try_def)


subsection \<open>FileCache.get swallows every exception\<close>

text \<open>
  C2. \<^verbatim>\<open>FileCache.get(id)\<close> never raises: in every world and for every id it returns a
  value, and whenever the body of \<^verbatim>\<open>_getf\<close> raises (missing file, a failing expiry check,
  an I/O error on opening) the value is \<^verbatim>\<open>None\<close>.
\<close>

theorem FileCache_get_never_raises:
  "(\<exists>r. snd (FileCache_get self i w) = Inr r)
   \<and> (\<forall>e. snd (getf_try self i w) = Inl e \<longrightarrow> snd (FileCache_get self i w) = Inr None)"
  by (auto simp: FileCache_get_def FileCache_get_try_def getf_def split: prod.splits sum.splits option.splits)

theorem FileCache_get_never_raises_witness:
  "snd (getf_try (new_cache KFileCache) ''a'' folder_empty) = Inl IOError
   \<and> snd (FileCache_get (new_cache KFileCache) ''a'' folder_empty) = Inr None"
proof -
  have h: "snd (getf_try (new_cache KFileCache) ''a'' folder_empty) = Inl IOError"
    by (simp add: getf_try_def remove_if_expired_def FileCache_open_def mktmp_def
        os_path_isdir_location_def py_open_def new_cache_def folder_empty_def)
  from FileCache_get_never_raises [THEN conjunct2, rule_format, OF h] h show ?thesis by simp
qed

subsection \<open>FileCache.clear\<close>

lemma clear_loop_Directory:
  assumes "root w = Directory al" and "distinct names"
    and "\<forall>n\<in>set names. map_of al n \<noteq> None"
  shows "\<exists>al'. clear_loop names w = (w\<lparr>root := Directory al'\<rparr>, Inr ())
           \<and> (\<forall>n. map_of al' n =
                 (if n \<in> set names \<and> is_file (map_of al n) \<and> startswith n fnprefix
                  then None else map_of al n))"
  using assms
proof (induction names arbitrary: w al)
  case Nil
  then have "w\<lparr>root := Directory al\<rparr> = w" by simp
  then show ?case by (intro exI [of _ al]) simp
next
  case (Cons name rest)
  show ?case
  proof (cases "\<not> is_dir (map_of al name) \<and> startswith name fnprefix")
    case False
    with Cons.prems have step: "clear_loop (name # rest) w = clear_loop rest w"
      by (auto simp: os_path_isdir_def lookup_def)
    from Cons.prems have "distinct rest" "\<forall>n\<in>set rest. map_of al n \<noteq> None" by auto
    from Cons.IH [OF Cons.prems(1) this] obtain al' where
      al': "clear_loop rest w = (w\<lparr>root := Directory al'\<rparr>, Inr ())"
        "\<forall>n. map_of al' n =
           (if n \<in> set rest \<and> is_file (map_of al n) \<and> startswith n fnprefix
            then None else map_of al n)" by blast
    from False al'(2) have m: "\<forall>n. map_of al' n =
           (if n \<in> set (name # rest) \<and> is_file (map_of al n) \<and> startswith n fnprefix
            then None else map_of al n)"
      by (auto simp: is_file_iff is_dir_iff)
    have c: "clear_loop (name # rest) w = (w\<lparr>root := Directory al'\<rparr>, Inr ())"
      by (simp only: step al'(1))
    from c m show ?thesis by (intro exI [of _ al']) (rule conjI)
  next
    case True
    from Cons.prems have "map_of al name \<noteq> None" by simp
    with True have isf: "is_file (map_of al name)"
      by (cases "map_of al name" rule: is_file.cases) auto
    let ?w = "w\<lparr>root := Directory (AList.delete name al)\<rparr>"
    from True isf Cons.prems(1) have step: "clear_loop (name # rest) w = clear_loop rest ?w"
      by (simp add: os_path_isdir_def lookup_def os_remove_def)
    from Cons.prems have d: "distinct rest" and nin: "name \<notin> set rest" by auto
    from Cons.prems nin have ex: "\<forall>n\<in>set rest. map_of (AList.delete name al) n \<noteq> None"
      by (auto simp: delete_conv')
    have r: "root ?w = Directory (AList.delete name al)" by simp
    from Cons.IH [OF r d ex] obtain al' where
      al': "clear_loop rest ?w = (?w\<lparr>root := Directory al'\<rparr>, Inr ())"
        "\<forall>n. map_of al' n =
           (if n \<in> set rest \<and> is_file (map_of (AList.delete name al) n) \<and> startswith n fnprefix
            then None else map_of (AList.delete name al) n)" by blast
    from al'(2) True isf nin have "\<forall>n. map_of al' n =
           (if n \<in> set (name # rest) \<and> is_file (map_of al n) \<and> startswith n fnprefix
            then None else map_of al n)"
      by (auto simp: delete_conv')
    moreover from al'(1)
    have "clear_loop (name # rest) w = (w\<lparr>root := Directory al'\<rparr>, Inr ())"
      by (simp only: step) simp
    ultimately show ?thesis by (intro exI [of _ al']) (rule conjI)
  qed
qed

lemma clear_Directory:
  assumes "root w = Directory al"
  shows "\<exists>al'. FileCache_clear w = (w\<lparr>root := Directory al'\<rparr>, Inr ())
           \<and> (\<forall>n. map_of al' n =
                 (if is_file (map_of al n) \<and> startswith n fnprefix then None else map_of al n))"
proof -
  have d: "distinct (remdups (map fst al))" by simp
  have ex: "\<forall>n\<in>set (remdups (map fst al)). map_of al n \<noteq> None"
    by (auto simp: map_of_eq_None_iff)
  from clear_loop_Directory [OF assms d ex] obtain al' where
    al': "clear_loop (remdups (map fst al)) w = (w\<lparr>root := Directory al'\<rparr>, Inr ())"
      "\<forall>n. map_of al' n =
         (if n \<in> set (remdups (map fst al)) \<and> is_file (map_of al n) \<and> startswith n fnprefix
          then None else map_of al n)" by blast
  have "\<forall>n. map_of al' n =
         (if is_file (map_of al n) \<and> startswith n fnprefix then None else map_of al n)"
  proof
    fix n
    show "map_of al' n =
         (if is_file (map_of al n) \<and> startswith n fnprefix then None else map_of al n)"
    proof (cases "n \<in> fst ` set al")
      case True
      with al'(2) show ?thesis by simp
    next
      case False
      then have "map_of al n = None" by (simp add: map_of_eq_None_iff)
      with al'(2) show ?thesis by simp
    qed
  qed
  moreover from al'(1) assms have "FileCache_clear w = (w\<lparr>root := Directory al'\<rparr>, Inr ())"
    by (simp add: FileCache_clear_def os_listdir_def)
  ultimately show ?thesis by (intro exI [of _ al']) (rule conjI)
qed

text \<open>
  C9. \<^verbatim>\<open>clear()\<close> removes exactly the non-directory entries of the cache folder whose names
  start with the prefix: after the call a name is absent if it was such a file, and every
  other name (a subdirectory, a file without the prefix, the version marker) maps to what
  it mapped to before. No file object stays open, and in an existing directory the call
  does not raise.
\<close>

theorem clear_removes_prefixed_files:
  "lookup (fst (FileCache_clear w)) n =
     (if is_file (lookup w n) \<and> startswith n fnprefix then None else lookup w n)
   \<and> lookup (fst (FileCache_clear w)) ''version'' = lookup w ''version''
   \<and> nopen (fst (FileCache_clear w)) = nopen w
   \<and> (os_path_isdir_location w \<longrightarrow> snd (FileCache_clear w) = Inr ())"
proof (cases "root w")
  case (Missing ok)
  then show ?thesis
    by (simp add: FileCache_clear_def os_listdir_def lookup_def os_path_isdir_location_def)
next
  case (Directory al)
  from clear_Directory [OF this] obtain al' where
    al': "FileCache_clear w = (w\<lparr>root := Directory al'\<rparr>, Inr ())"
      "\<forall>n. map_of al' n =
         (if is_file (map_of al n) \<and> startswith n fnprefix then None else map_of al n)" by blast
  have "\<not> startswith ''version'' fnprefix" by (simp add: startswith_def fnprefix_def)
  with al' Directory show ?thesis by (simp add: lookup_def)
qed


theorem clear_removes_prefixed_files_witness:
  "os_path_isdir_location folder_mixed
   \<and> snd (FileCache_clear folder_mixed) = Inr ()
   \<and> lookup (fst (FileCache_clear folder_mixed)) ''suds-a.gcf'' = None
   \<and> lookup (fst (FileCache_clear folder_mixed)) ''suds-dir'' = Some (Dir 0)
   \<and> lookup (fst (FileCache_clear folder_mixed)) ''other.txt'' = Some (File ''y'' 0)
   \<and> lookup (fst (FileCache_clear folder_mixed)) ''version'' = Some (File ''0.6'' 0)"
proof -
  have d: "os_path_isdir_location folder_mixed"
    by (simp add: os_path_isdir_location_def folder_mixed_def)
  from d clear_removes_prefixed_files [of folder_mixed "''suds-a.gcf''"]
    clear_removes_prefixed_files [of folder_mixed "''suds-dir''"]
    clear_removes_prefixed_files [of folder_mixed "''other.txt''"]
  show ?thesis
    by (simp add: lookup_def startswith_def fnprefix_def folder_mixed_def)
qed

subsection \<open>The version check of the constructor\<close>

lemma filename_prefixed: "startswith (filename self i) fnprefix"
  by (simp add: startswith_def filename_def fnprefix_def)

lemma filename_not_version: "filename self i \<noteq> ''version''"
  by (simp add: filename_def fnprefix_def)

lemma getf_absent:
  assumes "\<not> is_file (lookup w (filename self i))"
  shows "snd (getf self i w) = Inr None \<and> nopen (fst (getf self i w)) = nopen w"
proof (cases "root w")
  case (Missing ok)
  then show ?thesis
    by (auto simp: getf_def getf_try_def remove_if_expired_def os_path_getctime_def lookup_def
        FileCache_open_def mktmp_Missing py_open_def os_remove_def Let_def
        split: sum.splits prod.splits if_splits)
next
  case (Directory al)
  with assms have nf: "\<not> is_file (map_of al (filename self i))" by (simp add: lookup_def)
  then have rm: "os_remove (filename self i) w = (w, Inl OSError)"
    using Directory by (simp add: os_remove_def)
  from nf Directory have op: "FileCache_open (filename self i) Rd w = (w, Inl IOError)"
    by (auto simp: FileCache_open_def mktmp_Directory py_open_def is_file_iff
        split: option.splits node.splits)
  show ?thesis
    by (auto simp: getf_def getf_try_def remove_if_expired_def rm op Let_def
        split: sum.splits prod.splits if_splits)
qed

lemma FileCache_get_absent:
  assumes "\<not> is_file (lookup w (filename self i))"
  shows "snd (FileCache_get self i w) = Inr None"
  using getf_absent [OF assms]
  by (cases "getf self i w") (auto simp: FileCache_get_def FileCache_get_try_def)

lemma check_version_try_Directory:
  assumes "root w = Directory al"
  shows "check_version_try version w =
           (w, case map_of al ''version'' of
                 Some (File v c) \<Rightarrow> if v \<noteq> version then Inl (Exception []) else Inr ()
               | Some (Dir c) \<Rightarrow> Inl IOError
               | None \<Rightarrow> Inl IOError)"
  using assms
  by (simp add: check_version_try_def FileCache_open_def mktmp_Directory py_open_def
      file_close_def split: option.splits node.splits)

lemma check_version_match:
  assumes "version_marker w = Some version"
  shows "check_version version w = (w, Inr ())"
proof -
  from assms obtain c where "lookup w ''version'' = Some (File version c)"
    by (auto simp: version_marker_def split: option.splits node.splits)
  from lookup_Some_root [OF this] obtain al where
    "root w = Directory al" "map_of al ''version'' = Some (File version c)" by blast
  then show ?thesis
    by (simp add: check_version_def check_version_try_Directory)
qed

lemma check_version_mismatch:
  assumes "root w = Directory al" and "\<not> is_dir (map_of al ''version'')"
    and "version_marker w \<noteq> Some version"
  shows "\<exists>al'. check_version version w = (w\<lparr>root := Directory al'\<rparr>, Inr ())
           \<and> (\<forall>n. map_of al' n =
                 (if n = ''version'' then Some (File version (clock w))
                  else if is_file (map_of al n) \<and> startswith n fnprefix then None
                  else map_of al n))"
proof -
  from assms obtain e where t: "check_version_try version w = (w, Inl e)"
    by (auto simp: check_version_try_Directory version_marker_def lookup_def
        split: option.splits node.splits)
  from clear_Directory [OF assms(1)] obtain al1 where
    al1: "FileCache_clear w = (w\<lparr>root := Directory al1\<rparr>, Inr ())"
      "\<forall>n. map_of al1 n =
         (if is_file (map_of al n) \<and> startswith n fnprefix then None else map_of al n)" by blast
  have nv: "\<not> startswith ''version'' fnprefix" by (simp add: startswith_def fnprefix_def)
  with al1(2) assms(2) have nd: "\<not> is_dir (map_of al1 ''version'')" by simp
  let ?al' = "AList.update ''version'' (File version (clock w))
                (AList.update ''version'' (File [] (clock w)) al1)"
  from t al1(1) nd have "check_version version w = (w\<lparr>root := Directory ?al'\<rparr>, Inr ())"
    by (simp add: check_version_def FileCache_open_def mktmp_Directory py_open_def file_close_def)
  moreover from al1(2) have "\<forall>n. map_of ?al' n =
                 (if n = ''version'' then Some (File version (clock w))
                  else if is_file (map_of al n) \<and> startswith n fnprefix then None
                  else map_of al n)"
    by (simp add: update_conv')
  ultimately show ?thesis by (intro exI [of _ ?al']) (rule conjI)
qed

lemma check_version_marker_is_dir:
  assumes "root w = Directory al" and "is_dir (map_of al ''version'')"
  shows "snd (check_version version w) = Inl IOError
       \<and> lookup (fst (check_version version w)) ''version'' = lookup w ''version''"
proof -
  from assms have t: "check_version_try version w = (w, Inl IOError)"
    by (auto simp: check_version_try_Directory is_dir_iff)
  from clear_Directory [OF assms(1)] obtain al1 where
    al1: "FileCache_clear w = (w\<lparr>root := Directory al1\<rparr>, Inr ())"
      "\<forall>n. map_of al1 n =
         (if is_file (map_of al n) \<and> startswith n fnprefix then None else map_of al n)" by blast
  have nv: "\<not> startswith ''version'' fnprefix" by (simp add: startswith_def fnprefix_def)
  with al1(2) assms(2) have nd: "is_dir (map_of al1 ''version'')" by simp
  from t al1 nd nv assms show ?thesis
    by (simp add: check_version_def FileCache_open_def mktmp_Directory py_open_def lookup_def)
qed

lemma isdir_location_root: "os_path_isdir_location w \<Longrightarrow> \<exists>al. root w = Directory al"
  by (cases "root w") (simp_all add: os_path_isdir_location_def)

lemma check_version_effect:
  assumes "os_path_isdir_location w" and "\<not> is_dir (lookup w ''version'')"
    and "version_marker w \<noteq> Some version"
  shows "snd (check_version version w) = Inr ()
       \<and> lookup (fst (check_version version w)) n =
           (if n = ''version'' then Some (File version (clock w))
            else if is_file (lookup w n) \<and> startswith n fnprefix then None
            else lookup w n)
       \<and> nopen (fst (check_version version w)) = nopen w
       \<and> clock (fst (check_version version w)) = clock w"
proof -
  from isdir_location_root [OF assms(1)] obtain al where al: "root w = Directory al" by blast
  with assms(2) have nd: "\<not> is_dir (map_of al ''version'')" by (simp add: lookup_def)
  from check_version_mismatch [OF al nd assms(3)] obtain al' where
    al': "check_version version w = (w\<lparr>root := Directory al'\<rparr>, Inr ())"
      "\<forall>n. map_of al' n =
             (if n = ''version'' then Some (File version (clock w))
              else if is_file (map_of al n) \<and> startswith n fnprefix then None
              else map_of al n)" by blast
  with al show ?thesis by (simp add: lookup_def)
qed

lemma check_version_succeeds:
  assumes "os_path_isdir_location w" and "\<not> is_dir (lookup w ''version'')"
  shows "snd (check_version version w) = Inr ()"
proof (cases "version_marker w = Some version")
  case True
  then show ?thesis by (simp add: check_version_match)
next
  case False
  from check_version_effect [OF assms False] show ?thesis by simp
qed

text \<open>
  C3, as the code has it. Constructing a cache (with keyword arguments that
  \<^verbatim>\<open>__set_duration\<close> accepts) over an existing directory whose marker is missing, or is a
  regular file holding another string than the current version, succeeds; it removes every
  non-directory entry whose name starts with the prefix and leaves every other entry but
  the marker as it was; the marker then holds the current version; no file object stays
  open; and \<^verbatim>\<open>get\<close> reports every id absent.
\<close>

theorem init_rewrites_stale_version:
  assumes "os_path_isdir_location w"
    and "\<not> is_dir (lookup w ''version'')"
    and "version_marker w \<noteq> Some version"
    and "set_duration \<lparr>kind = k, duration = (None, 0)\<rparr> kwargs = Inr self"
  shows "snd (FileCache_init k kwargs version w) = Inr self
       \<and> lookup (fst (FileCache_init k kwargs version w)) n =
           (if n = ''version'' then Some (File version (clock w))
            else if is_file (lookup w n) \<and> startswith n fnprefix then None
            else lookup w n)
       \<and> version_marker (fst (FileCache_init k kwargs version w)) = Some version
       \<and> nopen (fst (FileCache_init k kwargs version w)) = nopen w
       \<and> snd (FileCache_get self i (fst (FileCache_init k kwargs version w))) = Inr None"
proof -
  let ?w = "fst (check_version version w)"
  have eff: "snd (check_version version w) = Inr ()"
    "\<And>n. lookup ?w n =
           (if n = ''version'' then Some (File version (clock w))
            else if is_file (lookup w n) \<and> startswith n fnprefix then None
            else lookup w n)"
    "nopen ?w = nopen w"
    using check_version_effect [OF assms(1-3)] by simp_all
  have i: "FileCache_init k kwargs version w = (?w, Inr self)"
    using assms(4) eff(1) by (cases "check_version version w") (simp add: FileCache_init_def)
  have "\<not> is_file (lookup ?w (filename self i))"
    by (simp add: eff(2) filename_not_version filename_prefixed)
  then have g: "snd (FileCache_get self i ?w) = Inr None" by (rule FileCache_get_absent)
  have m: "version_marker ?w = Some version" by (simp add: version_marker_def eff(2))
  from i eff g m show ?thesis by simp
qed

theorem init_rewrites_stale_version_witness:
  "snd (FileCache_init KFileCache [(''days'', 1)] ''0.6'' folder_stale)
     = Inr \<lparr>kind = KFileCache, duration = (Some ''days'', 1)\<rparr>
   \<and> lookup (fst (FileCache_init KFileCache [(''days'', 1)] ''0.6'' folder_stale)) ''suds-a.gcf'' = None
   \<and> lookup (fst (FileCache_init KFileCache [(''days'', 1)] ''0.6'' folder_stale)) ''version''
       = Some (File ''0.6'' 5)
   \<and> snd (FileCache_get \<lparr>kind = KFileCache, duration = (Some ''days'', 1)\<rparr> ''a''
       (fst (FileCache_init KFileCache [(''days'', 1)] ''0.6'' folder_stale))) = Inr None"
proof -
  have h1: "os_path_isdir_location folder_stale"
    by (simp add: os_path_isdir_location_def folder_stale_def)
  have h2: "\<not> is_dir (lookup folder_stale ''version'')"
    by (simp add: lookup_def folder_stale_def)
  have h3: "version_marker folder_stale \<noteq> Some ''0.6''"
    by (simp add: version_marker_def lookup_def folder_stale_def)
  have h4: "set_duration \<lparr>kind = KFileCache, duration = (None, 0)\<rparr> [(''days'', 1)]
              = Inr \<lparr>kind = KFileCache, duration = (Some ''days'', 1)\<rparr>"
    by (simp add: set_duration_def units_def)
  from init_rewrites_stale_version [OF h1 h2 h3 h4, of "''suds-a.gcf''" "''a''"]
    init_rewrites_stale_version [OF h1 h2 h3 h4, of "''version''" "''a''"]
  show ?thesis
    by (simp add: lookup_def folder_stale_def startswith_def fnprefix_def)
qed

text \<open>
  The claim as stated also covers an unreadable marker. A directory at the marker's path
  is unreadable: the entries are cleared, but \<^verbatim>\<open>open(path, "w")\<close> in the handler raises, the
  constructor raises with it, and no marker is written.
\<close>

theorem unreadable_marker_counterexample:
  "version_marker folder_marker_dir = None
   \<and> snd (FileCache_init KFileCache [] ''0.6'' folder_marker_dir) = Inl IOError
   \<and> lookup (fst (FileCache_init KFileCache [] ''0.6'' folder_marker_dir)) ''version'' = Some (Dir 0)
   \<and> lookup (fst (FileCache_init KFileCache [] ''0.6'' folder_marker_dir)) ''suds-a.gcf'' = None"
  by (simp add: version_marker_def lookup_def folder_marker_dir_def FileCache_init_def set_duration_def
      check_version_def check_version_try_def FileCache_open_def mktmp_def
      os_path_isdir_location_def py_open_def FileCache_clear_def os_listdir_def os_path_isdir_def
      os_remove_def startswith_def fnprefix_def)

subsection \<open>Duration keywords\<close>

text \<open>
  C5, as the code has it. \<^verbatim>\<open>__set_duration\<close> looks at the keywords only when there is
  exactly one. With more than one it leaves \<^verbatim>\<open>self.duration\<close> at \<^verbatim>\<open>(None, 0)\<close> and raises
  nothing: the constructor then does what its version check does, and succeeds over any
  directory whose marker path is not a directory. The construction-time error is the one
  for a single keyword that is not a unit.
\<close>

theorem init_ignores_several_durations:
  assumes "1 < length kwargs"
  shows "set_duration self kwargs = Inr self
       \<and> FileCache_init k kwargs version w =
           (case check_version version w of
              (w', Inl e) \<Rightarrow> (w', Inl e)
            | (w', Inr u) \<Rightarrow> (w', Inr \<lparr>kind = k, duration = (None, 0)\<rparr>))
       \<and> (os_path_isdir_location w \<and> \<not> is_dir (lookup w ''version'')
            \<longrightarrow> snd (FileCache_init k kwargs version w) = Inr \<lparr>kind = k, duration = (None, 0)\<rparr>)
       \<and> (\<not> (u \<in> set units)
            \<longrightarrow> FileCache_init k [(u, v)] version w = (w, Inl (Exception (''must be: '' @ str_units))))"
proof -
  have one: "FileCache_init k [(u, v)] version w = (w, Inl (Exception (''must be: '' @ str_units)))"
    if "\<not> (u \<in> set units)"
    using that by (simp add: FileCache_init_def set_duration_def)
  from assms have s: "\<And>c. set_duration c kwargs = Inr c" by (simp add: set_duration_def)
  then have i: "FileCache_init k kwargs version w =
           (case check_version version w of
              (w', Inl e) \<Rightarrow> (w', Inl e)
            | (w', Inr u) \<Rightarrow> (w', Inr \<lparr>kind = k, duration = (None, 0)\<rparr>))"
    by (simp add: FileCache_init_def)
  have "snd (FileCache_init k kwargs version w) = Inr \<lparr>kind = k, duration = (None, 0)\<rparr>"
    if "os_path_isdir_location w" "\<not> is_dir (lookup w ''version'')"
    using check_version_succeeds [OF that, of version] i
    by (cases "check_version version w") simp
  with s i one show ?thesis by blast
qed

theorem init_ignores_several_durations_witness:
  "1 < length [(''days'', 1::int), (''hours'', 2)]
   \<and> os_path_isdir_location folder_empty \<and> \<not> is_dir (lookup folder_empty ''version'')
   \<and> snd (FileCache_init KFileCache [(''days'', 1), (''hours'', 2)] ''0.6'' folder_empty)
       = Inr \<lparr>kind = KFileCache, duration = (None, 0)\<rparr>
   \<and> \<not> (''years'' \<in> set units)
   \<and> snd (FileCache_init KFileCache [(''years'', 1)] ''0.6'' folder_empty)
       = Inl (Exception (''must be: '' @ str_units))"
proof -
  have h: "1 < length [(''days'', 1::int), (''hours'', 2)]" by simp
  have d: "os_path_isdir_location folder_empty \<and> \<not> is_dir (lookup folder_empty ''version'')"
    by (simp add: os_path_isdir_location_def lookup_def folder_empty_def)
  have y: "\<not> (''years'' \<in> set units)" by (simp add: units_def)
  note t = init_ignores_several_durations [OF h, where k = KFileCache and version = "''0.6''"
      and w = folder_empty and self = "new_cache KFileCache" and u = "''years''" and v = 1]
  from t [THEN conjunct2, THEN conjunct2, THEN conjunct1, rule_format, OF d]
    t [THEN conjunct2, THEN conjunct2, THEN conjunct2, rule_format, OF y] h d y
  show ?thesis by simp
qed

text \<open>
  Two duration keywords: the constructor returns a cache that never expires.
\<close>

theorem several_durations_counterexample:
  "FileCache_init KFileCache [(''days'', 1), (''hours'', 2)] ''0.6'' folder_empty
     = (\<lparr>root = Directory [(''version'', File ''0.6'' 0)], clock = 0, nopen = 0\<rparr>,
        Inr \<lparr>kind = KFileCache, duration = (None, 0)\<rparr>)"
  by (simp add: folder_empty_def FileCache_init_def set_duration_def
      check_version_def check_version_try_def FileCache_open_def mktmp_def
      os_path_isdir_location_def py_open_def FileCache_clear_def os_listdir_def file_close_def)

subsection \<open>Expiry\<close>

lemma expiry_seconds_1:
  "duration self = (Some ''seconds'', 1) \<Longrightarrow> expiry self created = datetime_add created 1000000"
  by (simp add: expiry_def timedelta_def timedelta_normalise_def)

text \<open>
  C4, as the code has it. \<^verbatim>\<open>__remove_if_expired\<close> removes the file when
  \<^verbatim>\<open>created + timedelta < now\<close>, a strict comparison. With duration \<^verbatim>\<open>(seconds, 1)\<close>, and the
  creation time plus one second (1000000 microseconds) a \<^verbatim>\<open>datetime\<close>: an entry read up to
  and including that instant is present, and the world is unchanged; read later than that
  it is absent, and its file has been removed. Where the sum is no \<^verbatim>\<open>datetime\<close> (the entry
  was created in the last second of year 9999) the addition raises inside \<^verbatim>\<open>_getf\<close>: the entry
  is absent at any time of reading, and its file stays.
\<close>

theorem expiry_is_strict:
  assumes "lookup w (filename self i) = Some (File data created)"
    and "duration self = (Some ''seconds'', 1)"
  shows "(is_datetime (created + 1000000) \<and> clock w \<le> created + 1000000 \<longrightarrow>
            FileCache_get self i w = (w, Inr (Some data)))
       \<and> (is_datetime (created + 1000000) \<and> created + 1000000 < clock w \<longrightarrow>
            snd (FileCache_get self i w) = Inr None
            \<and> lookup (fst (FileCache_get self i w)) (filename self i) = None)
       \<and> (\<not> is_datetime (created + 1000000) \<longrightarrow> FileCache_get self i w = (w, Inr None))"
proof -
  have nz: "\<not> snd (duration self) < 1" by (simp add: assms(2))
  have ex: "expiry self created = Inr (created + 1000000)" if "is_datetime (created + 1000000)"
    using that by (simp add: expiry_seconds_1 [OF assms(2)] datetime_add_def)
  have a: "FileCache_get self i w = (w, Inr (Some data))"
    if "is_datetime (created + 1000000)" "clock w \<le> created + 1000000"
  proof -
    from that have "fresh self created (clock w)" by (simp add: fresh_def ex)
    with assms(1) show ?thesis by (rule FileCache_get_present)
  qed
  have b: "snd (FileCache_get self i w) = Inr None
            \<and> lookup (fst (FileCache_get self i w)) (filename self i) = None"
    if "is_datetime (created + 1000000)" "created + 1000000 < clock w"
    using FileCache_get_expired [OF assms(1) nz ex [OF that(1)] that(2)] by simp
  have c: "FileCache_get self i w = (w, Inr None)" if "\<not> is_datetime (created + 1000000)"
  proof -
    from that have "expiry self created = Inl OverflowError"
      by (simp add: expiry_seconds_1 [OF assms(2)] datetime_add_def)
    with assms(1) nz show ?thesis by (rule FileCache_get_expiry_raises)
  qed
  from a b c show ?thesis by blast
qed

theorem expiry_is_strict_witness:
  "is_datetime (7000000 + 1000000)
   \<and> FileCache_get (seconds_1 KFileCache) ''a'' (folder_entry 7000000 7999999)
     = (folder_entry 7000000 7999999, Inr (Some ''x''))
   \<and> FileCache_get (seconds_1 KFileCache) ''a'' (folder_entry 7000000 8000000)
     = (folder_entry 7000000 8000000, Inr (Some ''x''))
   \<and> snd (FileCache_get (seconds_1 KFileCache) ''a'' (folder_entry 7000000 8000001)) = Inr None
   \<and> lookup (fst (FileCache_get (seconds_1 KFileCache) ''a'' (folder_entry 7000000 8000001)))
       ''suds-a.gcf'' = None
   \<and> \<not> is_datetime (datetime_max + 1000000)
   \<and> FileCache_get (seconds_1 KFileCache) ''a'' (folder_entry datetime_max datetime_max)
     = (folder_entry datetime_max datetime_max, Inr None)"
proof -
  have n: "filename (seconds_1 KFileCache) ''a'' = ''suds-a.gcf''"
    by (simp add: filename_def fnprefix_def seconds_1_def)
  have l: "lookup (folder_entry c t) (filename (seconds_1 KFileCache) ''a'') = Some (File ''x'' c)"
    for c t
    by (simp add: n lookup_def folder_entry_def)
  have d: "duration (seconds_1 KFileCache) = (Some ''seconds'', 1)" by (simp add: seconds_1_def)
  have c: "clock (folder_entry c t) = t" for c t by (simp add: folder_entry_def)
  have v: "is_datetime (7000000 + 1000000)" by (simp add: is_datetime_def datetime_max_def)
  have o: "\<not> is_datetime (datetime_max + 1000000)" by (simp add: is_datetime_def)
  note t = expiry_is_strict [OF l d]
  have 1: "FileCache_get (seconds_1 KFileCache) ''a'' (folder_entry 7000000 7999999)
     = (folder_entry 7000000 7999999, Inr (Some ''x''))"
    by (rule t [THEN conjunct1, rule_format]) (simp add: c v [simplified])
  have 2: "FileCache_get (seconds_1 KFileCache) ''a'' (folder_entry 7000000 8000000)
     = (folder_entry 7000000 8000000, Inr (Some ''x''))"
    by (rule t [THEN conjunct1, rule_format]) (simp add: c v [simplified])
  have 3: "snd (FileCache_get (seconds_1 KFileCache) ''a'' (folder_entry 7000000 8000001)) = Inr None
   \<and> lookup (fst (FileCache_get (seconds_1 KFileCache) ''a'' (folder_entry 7000000 8000001)))
       (filename (seconds_1 KFileCache) ''a'') = None"
    by (rule t [THEN conjunct2, THEN conjunct1, rule_format]) (simp add: c v [simplified])
  have 4: "FileCache_get (seconds_1 KFileCache) ''a'' (folder_entry datetime_max datetime_max)
     = (folder_entry datetime_max datetime_max, Inr None)"
    by (rule t [THEN conjunct2, THEN conjunct2, rule_format]) (rule o)
  from v o 1 2 3 4 show ?thesis by (simp add: n)
qed

text \<open>
  At exactly the creation time plus one second the entry is still returned. And an entry
  created in the last microsecond of year 9999 is absent when read at once, before any
  boundary.
\<close>

theorem expiry_boundary_counterexample:
  "snd (FileCache_get (seconds_1 KFileCache) ''a'' (folder_entry 7000000 (7000000 + 1000000)))
     = Inr (Some ''x'')
   \<and> snd (FileCache_get (seconds_1 KFileCache) ''a'' (folder_entry datetime_max datetime_max))
     = Inr None"
  by (simp add: FileCache_get_def FileCache_get_try_def getf_def getf_try_def
      remove_if_expired_def os_path_getctime_def lookup_def expiry_def timedelta_def
      timedelta_normalise_def datetime_add_def is_datetime_def datetime_max_def
      FileCache_open_def mktmp_def os_path_isdir_location_def py_open_def filename_def
      fnprefix_def seconds_1_def folder_entry_def file_close_def)

subsection \<open>NoCache\<close>

text \<open>
  C6, as the code has it. \<^verbatim>\<open>NoCache.get\<close> always returns \<^verbatim>\<open>None\<close>; \<^verbatim>\<open>NoCache.put\<close> returns
  \<^verbatim>\<open>None\<close> too, not its argument; \<^verbatim>\<open>purge\<close> and \<^verbatim>\<open>clear\<close> are the methods of \<^verbatim>\<open>Cache\<close>, which
  raise \<^verbatim>\<open>Exception("not-implemented")\<close>.
\<close>

theorem NoCache_returns_None_and_inherits:
  "NoCache_get i = Inr None
   \<and> NoCache_put i v = Inr None
   \<and> NoCache_purge i = Inl (Exception ''not-implemented'')
   \<and> NoCache_clear = Inl (Exception ''not-implemented'')"
  by (simp add: NoCache_get_def NoCache_put_def NoCache_purge_def NoCache_clear_def
      Cache_purge_def Cache_clear_def not_implemented_def)

text \<open>
  \<^verbatim>\<open>put\<close> does not return its input, and \<^verbatim>\<open>purge\<close> and \<^verbatim>\<open>clear\<close> do not return at all.
\<close>

theorem NoCache_counterexample:
  "NoCache_put ''a'' ''x'' \<noteq> Inr (Some ''x'')
   \<and> NoCache_purge ''a'' \<noteq> Inr ()
   \<and> NoCache_clear \<noteq> Inr ()"
  by (simp add: NoCache_put_def NoCache_purge_def NoCache_clear_def
      Cache_purge_def Cache_clear_def)

subsection \<open>What put returns\<close>

lemma FileCache_put_returns_data: "snd (FileCache_put self i data w) = Inr data"
  by (auto simp: FileCache_put_def FileCache_put_try_def split: prod.splits sum.splits)

text \<open>
  C7, as the code has it. \<^verbatim>\<open>FileCache.put\<close> returns its data in every world, whether or
  not the write succeeded. \<^verbatim>\<open>DocumentCache.put\<close> returns its argument when that is not an
  element, and when it is one that renders; \<^verbatim>\<open>ObjectCache.put\<close> returns its argument when
  \<^verbatim>\<open>pickle.dumps\<close> succeeds. Serialisation stands outside every \<^verbatim>\<open>try\<close>: when it raises,
  \<^verbatim>\<open>put\<close> raises the same exception and leaves the world untouched. \<^verbatim>\<open>NoCache.put\<close> returns
  \<^verbatim>\<open>None\<close>.
\<close>

theorem put_returns_its_argument:
  "snd (FileCache_put self i data w) = Inr data
   \<and> snd (DocumentCache_put render self i (Other x) w) = Inr (Other x)
   \<and> (render el = Inr xml \<longrightarrow>
        snd (DocumentCache_put render self i (Element el) w) = Inr (Element el))
   \<and> (render el = Inl e \<longrightarrow> DocumentCache_put render self i (Element el) w = (w, Inl e))
   \<and> (dumps v = Inr pickled \<longrightarrow> snd (ObjectCache_put dumps self i v w) = Inr v)
   \<and> (dumps v = Inl e' \<longrightarrow> ObjectCache_put dumps self i v w = (w, Inl e'))
   \<and> NoCache_put i v = Inr None"
proof -
  have f: "\<exists>w'. FileCache_put self i d w = (w', Inr d)" for d
    using FileCache_put_returns_data [of self i d w] by (cases "FileCache_put self i d w") simp
  have a: "snd (DocumentCache_put render self i (Other x) w) = Inr (Other x)"
    by (simp add: DocumentCache_put_def)
  have b: "snd (DocumentCache_put render self i (Element el) w) = Inr (Element el)"
    if "render el = Inr xml"
    using that f [of xml] by (auto simp: DocumentCache_put_def)
  have c: "DocumentCache_put render self i (Element el) w = (w, Inl e)" if "render el = Inl e"
    using that by (simp add: DocumentCache_put_def)
  have d: "snd (ObjectCache_put dumps self i v w) = Inr v" if "dumps v = Inr pickled"
    using that f [of pickled] by (auto simp: ObjectCache_put_def)
  have e: "ObjectCache_put dumps self i v w = (w, Inl e')" if "dumps v = Inl e'"
    using that by (simp add: ObjectCache_put_def)
  have n: "NoCache_put i v = Inr None" by (simp add: NoCache_put_def)
  from FileCache_put_returns_data [of self i data w] a b c d e n show ?thesis by blast
qed

theorem put_returns_its_argument_witness:
  "snd (FileCache_put (new_cache KFileCache) ''a'' ''x'' folder_uncreatable) = Inr ''x''
   \<and> lookup (fst (FileCache_put (new_cache KFileCache) ''a'' ''x'' folder_uncreatable))
        ''suds-a.gcf'' = None
   \<and> snd (ObjectCache_put (\<lambda>v. Inr v) (new_cache KObjectCache) ''a'' ''x'' folder_uncreatable)
        = Inr ''x''
   \<and> ObjectCache_put (\<lambda>v. Inl PicklingError) (new_cache KObjectCache) ''a'' ''x''
        folder_uncreatable = (folder_uncreatable, Inl PicklingError)
   \<and> snd (DocumentCache_put (\<lambda>v. Inr v) (new_cache KDocumentCache) ''a'' (Element ''x'')
        folder_uncreatable) = Inr (Element ''x'')
   \<and> DocumentCache_put (\<lambda>v. Inl TypeError) (new_cache KDocumentCache) ''a'' (Element ''x'')
        folder_uncreatable = (folder_uncreatable, Inl TypeError)"
proof -
  have l: "lookup (fst (FileCache_put (new_cache KFileCache) ''a'' ''x'' folder_uncreatable))
        ''suds-a.gcf'' = None"
    by (simp add: FileCache_put_def FileCache_put_try_def FileCache_open_def mktmp_def
        os_path_isdir_location_def os_makedirs_def py_open_def folder_uncreatable_def lookup_def)
  note t = put_returns_its_argument [where w = folder_uncreatable and i = "''a''"]
  note t3 = t [THEN conjunct2, THEN conjunct2, THEN conjunct1, rule_format]
  note t4 = t [THEN conjunct2, THEN conjunct2, THEN conjunct2, THEN conjunct1, rule_format]
  note t5 = t [THEN conjunct2, THEN conjunct2, THEN conjunct2, THEN conjunct2, THEN conjunct1,
      rule_format]
  note t6 = t [THEN conjunct2, THEN conjunct2, THEN conjunct2, THEN conjunct2, THEN conjunct2,
      THEN conjunct1, rule_format]
  have 1: "snd (FileCache_put (new_cache KFileCache) ''a'' ''x'' folder_uncreatable) = Inr ''x''"
    by (rule t [THEN conjunct1])
  have 3: "snd (DocumentCache_put (\<lambda>v. Inr v) (new_cache KDocumentCache) ''a'' (Element ''x'')
        folder_uncreatable) = Inr (Element ''x'')"
    by (rule t3 [where xml = "''x''"]) simp
  have 4: "DocumentCache_put (\<lambda>v. Inl TypeError) (new_cache KDocumentCache) ''a'' (Element ''x'')
        folder_uncreatable = (folder_uncreatable, Inl TypeError)"
    by (rule t4) simp
  have 5: "snd (ObjectCache_put (\<lambda>v. Inr v) (new_cache KObjectCache) ''a'' ''x''
        folder_uncreatable) = Inr ''x''"
    by (rule t5 [where pickled = "''x''"]) simp
  have 6: "ObjectCache_put (\<lambda>v. Inl PicklingError) (new_cache KObjectCache) ''a'' ''x''
        folder_uncreatable = (folder_uncreatable, Inl PicklingError)"
    by (rule t6) simp
  from l 1 3 4 5 6 show ?thesis by simp
qed

text \<open>
  A value that \<^verbatim>\<open>pickle.dumps\<close> rejects makes \<^verbatim>\<open>ObjectCache.put\<close> raise, and \<^verbatim>\<open>NoCache.put\<close>
  returns \<^verbatim>\<open>None\<close> for any value.
\<close>

theorem put_counterexample:
  "snd (ObjectCache_put (\<lambda>v. Inl PicklingError) (new_cache KObjectCache) ''a'' ''x'' folder_empty)
     = Inl PicklingError
   \<and> NoCache_put ''a'' ''x'' = Inr None"
  by (simp add: ObjectCache_put_def NoCache_put_def)

subsection \<open>Round trip\<close>

lemma lookup_clock_update [simp]: "lookup (w\<lparr>clock := t\<rparr>) n = lookup w n"
  by (simp add: lookup_def)






subsection \<open>Corrupt entries\<close>

lemma purge_removes_file:
  assumes "is_file (lookup w (filename self i))"
  shows "snd (FileCache_purge self i w) = Inr ()
       \<and> lookup (fst (FileCache_purge self i w)) (filename self i) = None
       \<and> nopen (fst (FileCache_purge self i w)) = nopen w"
  using assms
  by (cases "root w") (auto simp: FileCache_purge_def os_remove_def lookup_def delete_conv')

lemma lookup_nopen_update [simp]: "lookup (w\<lparr>nopen := n\<rparr>) name = lookup w name"
  by (simp add: lookup_def)

lemma lookup_file_close [simp]: "lookup (file_close w) name = lookup w name"
  by (simp add: file_close_def)

text \<open>
  When the expiry check runs without raising, a file that the codec cannot decode is gone after \<^verbatim>\<open>get\<close>
  (purged by the handler, or removed as expired), \<^verbatim>\<open>get\<close> returns \<^verbatim>\<open>None\<close>, and the file
  object is closed.
\<close>

lemma corrupt_entry_is_purged:
  assumes "lookup w (filename self i) = Some (File data c)" and "expiry_check_runs self c"
  shows "(loads data = Inl e \<longrightarrow>
            snd (ObjectCache_get loads self i w) = Inr None
            \<and> lookup (fst (ObjectCache_get loads self i w)) (filename self i) = None
            \<and> nopen (fst (ObjectCache_get loads self i w)) = nopen w)
       \<and> (parse data = Inl e' \<longrightarrow>
            snd (DocumentCache_get parse self i w) = Inr None
            \<and> lookup (fst (DocumentCache_get parse self i w)) (filename self i) = None
            \<and> nopen (fst (DocumentCache_get parse self i w)) = nopen w)"
proof (cases "fresh self c (clock w)")
  case True
  let ?w = "file_close (w\<lparr>nopen := nopen w + 1\<rparr>)"
  have "is_file (lookup ?w (filename self i))" by (simp add: assms(1))
  moreover have "nopen ?w = nopen w" by (simp add: file_close_def)
  ultimately show ?thesis
    using purge_removes_file [of ?w self i]
    by (cases "FileCache_purge self i ?w")
      (auto simp: ObjectCache_get_def DocumentCache_get_def getf_present [OF assms(1) True])
next
  case False
  with assms(2) obtain x where
    d: "\<not> snd (duration self) < 1" "expiry self c = Inr x" "x < clock w"
    by (auto simp: fresh_def expiry_check_runs_def split: if_splits sum.splits)
  from getf_expired [OF assms(1) d] show ?thesis
    by (cases "getf self i w") (auto simp: ObjectCache_get_def DocumentCache_get_def)
qed

text \<open>
  C8 at a cache built with \<^verbatim>\<open>months=1\<close>. The constructor accepts the unit; in \<^verbatim>\<open>get\<close> the
  call \<^verbatim>\<open>timedelta(months=1)\<close> raises inside \<^verbatim>\<open>_getf\<close>, which returns \<^verbatim>\<open>None\<close>, so the codec
  never sees the bytes: \<^verbatim>\<open>get\<close> returns \<^verbatim>\<open>None\<close> and the world is unchanged, the corrupt
  file still in place.
\<close>

theorem corrupt_entry_kept_under_months:
  "FileCache_init KObjectCache [(''months'', 1)] ''0.6'' folder_garbage
     = (folder_garbage, Inr (months_1 KObjectCache))
   \<and> ObjectCache_get (\<lambda>b. Inl UnpicklingError :: error + string) (months_1 KObjectCache) ''a''
        folder_garbage = (folder_garbage, Inr None)
   \<and> DocumentCache_get (\<lambda>b. Inl ParseError :: error + string) (months_1 KDocumentCache) ''a''
        folder_garbage = (folder_garbage, Inr None)
   \<and> lookup folder_garbage ''suds-a.px'' = Some (File ''garbage'' 0)
   \<and> lookup folder_garbage ''suds-a.xml'' = Some (File ''garbage'' 0)"
  by (simp add: FileCache_init_def set_duration_def units_def months_1_def
      check_version_def check_version_try_def
      ObjectCache_get_def DocumentCache_get_def getf_def getf_try_def
      remove_if_expired_def os_path_getctime_def lookup_def expiry_def timedelta_def FileCache_open_def
      mktmp_def os_path_isdir_location_def py_open_def filename_def fnprefix_def
      folder_garbage_def file_close_def)

subsection \<open>Open file objects\<close>

lemma nopen_os_remove: "nopen (fst (os_remove name w)) = nopen w"
  by (cases "root w") (simp_all add: os_remove_def)

lemma nopen_mktmp: "nopen (mktmp w) = nopen w"
  by (cases "root w") (simp_all add: mktmp_def os_path_isdir_location_def os_makedirs_def)

lemma nopen_FileCache_open:
  "nopen (fst (FileCache_open name m w)) =
     (case snd (FileCache_open name m w) of Inl e \<Rightarrow> nopen w | Inr f \<Rightarrow> nopen w + 1)"
  by (cases "root (mktmp w)"; cases m)
    (auto simp: FileCache_open_def py_open_def nopen_mktmp split: option.splits node.splits)

lemma nopen_file_write: "nopen (fst (file_write f data w)) = nopen w"
  by (cases f; cases "root w") simp_all

lemma nopen_remove_if_expired: "nopen (fst (remove_if_expired self name w)) = nopen w"
  by (auto simp: remove_if_expired_def nopen_os_remove Let_def split: sum.splits)

lemma nopen_getf:
  "nopen (fst (getf self i w)) =
     (case snd (getf self i w) of Inr (Some f) \<Rightarrow> nopen w + 1 | Inr None \<Rightarrow> nopen w
      | Inl e \<Rightarrow> nopen w)"
proof -
  obtain w1 r1 where r: "remove_if_expired self (filename self i) w = (w1, r1)"
    by (cases "remove_if_expired self (filename self i) w")
  with nopen_remove_if_expired [of self "filename self i" w] have n1: "nopen w1 = nopen w" by simp
  obtain w2 r2 where o: "FileCache_open (filename self i) Rd w1 = (w2, r2)"
    by (cases "FileCache_open (filename self i) Rd w1")
  with nopen_FileCache_open [of "filename self i" Rd w1] n1
  have n2: "nopen w2 = (case r2 of Inl e \<Rightarrow> nopen w | Inr f \<Rightarrow> nopen w + 1)"
    by (simp split: sum.splits)
  from r o n1 n2 show ?thesis
    by (auto simp: getf_def getf_try_def Let_def split: sum.splits)
qed

lemma nopen_clear_loop: "nopen (fst (clear_loop names w)) = nopen w"
proof (induction names arbitrary: w)
  case Nil
  show ?case by simp
next
  case (Cons name rest)
  obtain w1 r1 where r: "os_remove name w = (w1, r1)" by (cases "os_remove name w")
  with nopen_os_remove [of name w] have "nopen w1 = nopen w" by simp
  with r Cons.IH [of w] Cons.IH [of w1] show ?case by (auto split: sum.splits)
qed

lemma nopen_clear: "nopen (fst (FileCache_clear w)) = nopen w"
  by (simp add: FileCache_clear_def nopen_clear_loop split: sum.splits)

text \<open>
  \<^verbatim>\<open>FileCache.get\<close>, \<^verbatim>\<open>put\<close>, \<^verbatim>\<open>purge\<close>, \<^verbatim>\<open>clear\<close> and the constructor leave the number of open
  file objects as they found it, on every path.
\<close>

lemma FileCache_closes_its_files:
  "nopen (fst (FileCache_get self i w)) = nopen w
   \<and> nopen (fst (FileCache_put self i data w)) = nopen w
   \<and> nopen (fst (FileCache_purge self i w)) = nopen w
   \<and> nopen (fst (FileCache_clear w)) = nopen w"
proof -
  have g: "nopen (fst (FileCache_get self i w)) = nopen w"
    using nopen_getf [of self i w]
    by (cases "getf self i w")
      (auto simp: FileCache_get_def FileCache_get_try_def file_close_def
        split: sum.splits option.splits)
  obtain w1 r1 where o: "FileCache_open (filename self i) Wr w = (w1, r1)"
    by (cases "FileCache_open (filename self i) Wr w")
  with nopen_FileCache_open [of "filename self i" Wr w]
  have n1: "nopen w1 = (case r1 of Inl e \<Rightarrow> nopen w | Inr f \<Rightarrow> nopen w + 1)" by simp
  have p: "nopen (fst (FileCache_put self i data w)) = nopen w"
  proof (cases r1)
    case (Inl e)
    with o n1 show ?thesis by (simp add: FileCache_put_def FileCache_put_try_def)
  next
    case (Inr f)
    obtain w2 r2 where fw: "file_write f data w1 = (w2, r2)" by (cases "file_write f data w1")
    with nopen_file_write [of f data w1] have "nopen w2 = nopen w1" by simp
    with Inr o n1 fw show ?thesis
      by (cases r2) (simp_all add: FileCache_put_def FileCache_put_try_def file_close_def)
  qed
  have u: "nopen (fst (FileCache_purge self i w)) = nopen w"
    using nopen_os_remove [of "filename self i" w]
    by (cases "os_remove (filename self i) w") (auto simp: FileCache_purge_def split: sum.splits)
  from g p u nopen_clear show ?thesis by simp
qed

lemma nopen_check_version_try: "nopen (fst (check_version_try version w)) = nopen w"
proof -
  obtain w1 r1 where o: "FileCache_open ''version'' Rd w = (w1, r1)"
    by (cases "FileCache_open ''version'' Rd w")
  with nopen_FileCache_open [of "''version''" Rd w]
  have "nopen w1 = (case r1 of Inl e \<Rightarrow> nopen w | Inr f \<Rightarrow> nopen w + 1)" by simp
  with o show ?thesis
    by (cases r1) (auto simp: check_version_try_def file_close_def split: sum.splits)
qed

lemma nopen_check_version: "nopen (fst (check_version version w)) = nopen w"
proof -
  obtain w1 r1 where t: "check_version_try version w = (w1, r1)"
    by (cases "check_version_try version w")
  with nopen_check_version_try [of version w] have n1: "nopen w1 = nopen w" by simp
  obtain w2 r2 where c: "FileCache_clear w1 = (w2, r2)" by (cases "FileCache_clear w1")
  with nopen_clear [of w1] n1 have n2: "nopen w2 = nopen w" by simp
  obtain w3 r3 where o: "FileCache_open ''version'' Wr w2 = (w3, r3)"
    by (cases "FileCache_open ''version'' Wr w2")
  with nopen_FileCache_open [of "''version''" Wr w2] n2
  have n3: "nopen w3 = (case r3 of Inl e \<Rightarrow> nopen w | Inr f \<Rightarrow> nopen w + 1)"
    by (simp split: sum.splits)
  show ?thesis
  proof (cases r1)
    case (Inr u)
    with t n1 show ?thesis by (simp add: check_version_def)
  next
    case l1: (Inl e1)
    show ?thesis
    proof (cases r2)
      case (Inl e2)
      with t l1 c n2 show ?thesis by (simp add: check_version_def)
    next
      case r2: (Inr u2)
      show ?thesis
      proof (cases r3)
        case (Inl e3)
        with t l1 c r2 o n3 show ?thesis by (simp add: check_version_def)
      next
        case (Inr f)
        obtain w4 r4 where fw: "file_write f version w3 = (w4, r4)"
          by (cases "file_write f version w3")
        with nopen_file_write [of f version w3] have "nopen w4 = nopen w3" by simp
        with t l1 c r2 o n3 Inr fw show ?thesis
          by (simp add: check_version_def file_close_def)
      qed
    qed
  qed
qed

lemma nopen_init: "nopen (fst (FileCache_init k kwargs version w)) = nopen w"
  using nopen_check_version [of version w]
  by (cases "check_version version w") (auto simp: FileCache_init_def split: sum.splits)

text \<open>
  \<^verbatim>\<open>ObjectCache.get\<close> closes \<open>fp\<close> only in its handler. Whenever it returns an object, the
  file object it opened is still open.
\<close>

lemma ObjectCache_get_hit_leaves_file_open:
  "snd (ObjectCache_get loads self i w) = Inr (Some v) \<Longrightarrow>
     nopen (fst (ObjectCache_get loads self i w)) = nopen w + 1"
  using nopen_getf [of self i w]
  by (cases "getf self i w")
    (auto simp: ObjectCache_get_def FileCache_purge_def split: sum.splits option.splits prod.splits)

text \<open>
  C10 at a cache hit of \<^verbatim>\<open>ObjectCache.get\<close>: no file object was open before the call,
  one is open after it. \<^verbatim>\<open>FileCache.get\<close> on the same folder closes its own.
\<close>

theorem ObjectCache_get_leaves_file_open:
  "snd (ObjectCache_get (\<lambda>b. Inr b) (new_cache KObjectCache) ''a'' folder_pickled)
     = Inr (Some ''pickled'')
   \<and> nopen folder_pickled = 0
   \<and> nopen (fst (ObjectCache_get (\<lambda>b. Inr b) (new_cache KObjectCache) ''a'' folder_pickled)) = 1
   \<and> nopen (fst (FileCache_get (new_cache KFileCache) ''a'' folder_pickled)) = 0"
  by (simp add: new_cache_def
      ObjectCache_get_def FileCache_get_def FileCache_get_try_def getf_def getf_try_def
      remove_if_expired_def lookup_def FileCache_open_def
      mktmp_def os_path_isdir_location_def py_open_def filename_def fnprefix_def
      folder_pickled_def file_close_def)

end
